theory Spec2Isabelle
  imports Complex_Main
begin

section \<open>Text of the speech recogniser\<close>

text \<open>
  A Python \<open>str\<close> is a sequence of Unicode code points. The recogniser's transcripts
  contain Chinese characters, so a transcript is modelled as the list of its code points
  (\<open>ord c\<close> for each character \<open>c\<close>), not as a byte string.
\<close>

type_synonym ustr = "nat list"

text \<open>The characters that the source names, by code point.\<close>

definition ch_ling :: nat where "ch_ling = 0x96F6"     \<comment> \<open>U+96F6, zero\<close>
definition ch_yi :: nat where "ch_yi = 0x4E00"         \<comment> \<open>U+4E00, one\<close>
definition ch_er :: nat where "ch_er = 0x4E8C"         \<comment> \<open>U+4E8C, two\<close>
definition ch_san :: nat where "ch_san = 0x4E09"       \<comment> \<open>U+4E09, three\<close>
definition ch_si :: nat where "ch_si = 0x56DB"         \<comment> \<open>U+56DB, four\<close>
definition ch_wu :: nat where "ch_wu = 0x4E94"         \<comment> \<open>U+4E94, five\<close>
definition ch_liu :: nat where "ch_liu = 0x516D"       \<comment> \<open>U+516D, six\<close>
definition ch_qi :: nat where "ch_qi = 0x4E03"         \<comment> \<open>U+4E03, seven\<close>
definition ch_ba :: nat where "ch_ba = 0x516B"         \<comment> \<open>U+516B, eight\<close>
definition ch_jiu :: nat where "ch_jiu = 0x4E5D"       \<comment> \<open>U+4E5D, nine\<close>
definition ch_shi :: nat where "ch_shi = 0x5341"       \<comment> \<open>U+5341, ten\<close>
definition ch_bai :: nat where "ch_bai = 0x767E"       \<comment> \<open>U+767E, hundred\<close>
definition ch_qian :: nat where "ch_qian = 0x5343"     \<comment> \<open>U+5343, thousand\<close>
definition ch_wan :: nat where "ch_wan = 0x4E07"       \<comment> \<open>U+4E07, ten thousand\<close>
definition ch_liang :: nat where "ch_liang = 0x4E24"   \<comment> \<open>U+4E24, colloquial two\<close>

text \<open>
  The dictionary \<open>cn_num\<close> of \<open>AudioProcessor.extract_number\<close>, in the order of the
  source; no key occurs twice. The ASCII digits \<open>'0'\<close> .. \<open>'9'\<close> are the code points
  48 .. 57.
\<close>

definition cn_num :: "(nat \<times> int) list" where
  "cn_num =
    [(ch_ling, 0), (ch_yi, 1), (ch_er, 2), (ch_san, 3), (ch_si, 4), (ch_wu, 5),
     (ch_liu, 6), (ch_qi, 7), (ch_ba, 8), (ch_jiu, 9), (ch_shi, 10), (ch_bai, 100),
     (ch_qian, 1000), (ch_wan, 10000),
     (48, 0), (49, 1), (50, 2), (51, 3), (52, 4), (53, 5), (54, 6), (55, 7), (56, 8),
     (57, 9), (ch_liang, 2)]"

text \<open>\<open>text.replace(a, b)\<close> for one-character \<open>a\<close> and \<open>b\<close>.\<close>

definition replace_char :: "nat \<Rightarrow> nat \<Rightarrow> ustr \<Rightarrow> ustr" where
  "replace_char a b t = map (\<lambda>c. if c = a then b else c) t"

text \<open>
  The loop \<open>for word in text\<close>: a character with an entry in \<open>cn_num\<close> whose value is
  in 0..5 is returned; any other character lets the loop go on to the next one.
\<close>

fun scan_text :: "ustr \<Rightarrow> int option" where
  "scan_text [] = None"
| "scan_text (word # rest) =
     (case map_of cn_num word of
        Some num \<Rightarrow> if 0 \<le> num \<and> num \<le> 5 then Some num else scan_text rest
      | None \<Rightarrow> scan_text rest)"

definition extract_number :: "ustr \<Rightarrow> int option" where
  "extract_number t = scan_text (replace_char ch_liang ch_er (replace_char ch_ling 48 t))"


text \<open>
  The substring test \<open>sub in text\<close> of \<open>GameWindow.on_voice_input\<close>.
\<close>

fun startswith :: "ustr \<Rightarrow> ustr \<Rightarrow> bool" where
  "startswith t [] = True"
| "startswith [] (p # ps) = False"
| "startswith (c # cs) (p # ps) = (c = p \<and> startswith cs ps)"

fun contains :: "ustr \<Rightarrow> ustr \<Rightarrow> bool" where
  "contains sub [] = (sub = [])"
| "contains sub (c # cs) = (startswith (c # cs) sub \<or> contains sub cs)"

definition kw_start :: ustr where "kw_start = [0x5F00, 0x59CB]"   \<comment> \<open>U+5F00 U+59CB, "start"\<close>
definition kw_1515 :: ustr where "kw_1515 = [49, 53, 32, 49, 53]"  \<comment> \<open>"15 15"\<close>
definition kw_exit :: ustr where
  "kw_exit = [0x9000, 0x51FA, 0x6E38, 0x620F]"   \<comment> \<open>U+9000 U+51FA U+6E38 U+620F, "exit game"\<close>

section \<open>Gesture labels and Python's int and str\<close>

text \<open>
  Gesture labels are ASCII and are kept as \<open>string\<close>. \<open>py_int\<close> is \<open>int(g)\<close> on a string
  of decimal digits, and raises (\<open>None\<close>) on the empty string and on any other character.
  Python's \<open>int\<close> also accepts a sign, surrounding blanks and underscores; the strings
  that reach it here are the values of the two gesture mappings, "0" and "5".
\<close>

fun py_int_from :: "int \<Rightarrow> string \<Rightarrow> int option" where
  "py_int_from acc [] = Some acc"
| "py_int_from acc (c # cs) =
     (let d = (of_char c :: nat)
      in if 48 \<le> d \<and> d \<le> 57 then py_int_from (10 * acc + int (d - 48)) cs else None)"

definition py_int :: "string \<Rightarrow> int option" where
  "py_int g = (if g = [] then None else py_int_from 0 g)"

text \<open>\<open>str(n)\<close> for an integer: the decimal numeral, with a minus sign when negative.\<close>

fun str_nat :: "nat \<Rightarrow> string" where
  "str_nat n =
     (if n < 10 then [char_of (48 + n)] else str_nat (n div 10) @ [char_of (48 + n mod 10)])"

declare str_nat.simps [simp del]

definition py_str :: "int \<Rightarrow> string" where
  "py_str i = (if i < 0 then CHR ''-'' # str_nat (nat (- i)) else str_nat (nat i))"

text \<open>
  \<open>random.choice(xs)\<close> on a non-empty list: the draw is an input of the model, the
  index that the generator picks.
\<close>

definition random_choice :: "'a list \<Rightarrow> nat \<Rightarrow> 'a" where
  "random_choice xs r = xs ! (r mod length xs)"

section \<open>The game window\<close>

datatype GameState = WAITING | READY | PLAYING | FINISHED

text \<open>
  The three values of \<open>outcome\<close> in \<open>process_round\<close>: the strings for "victory"
  (\<open>PlayerWin\<close>), "defeat" (\<open>ComputerWin\<close>) and "draw" (\<open>Draw\<close>).
\<close>

datatype outcome = PlayerWin | ComputerWin | Draw

text \<open>The callbacks that the source hands to \<open>QTimer.singleShot\<close>.\<close>

datatype callback = cb_start_round | cb_auto_process_round | cb_process_round | cb_end_game

text \<open>The fields that the formatted \<open>record\<close> string of \<open>process_round\<close> carries.\<close>

record round_record =
  rec_player_gesture :: string
  rec_player_call :: int
  rec_computer_gesture :: string
  rec_computer_call :: int
  rec_total :: int
  rec_outcome :: outcome

text \<open>
  The attributes of \<open>GameWindow\<close> that the game logic reads or writes (\<open>init_game\<close>),
  two attributes of its \<open>AudioProcessor\<close> (\<open>running\<close> and \<open>last_text\<close>), and two pieces
  of the Qt runtime: the single-shot timers that are pending, each with the time at which
  it is due, and whether the window has been closed.
  Times are seconds, as \<open>time.time()\<close> returns them, taken as exact reals.
  The attributes \<open>current_round\<close>, \<open>player_number\<close> and \<open>computer_number\<close>, which are
  never read, are left out.
\<close>

record game =
  state :: GameState
  score_player :: int
  score_computer :: int
  score_draws :: int
  valid_rounds :: int
  max_rounds :: int
  reaction_times :: "real list"
  round_start_time :: "real option"
  player_gesture :: "string option"
  player_call :: "int option"
  computer_gesture :: "string option"
  computer_call :: "int option"
  round_records :: "round_record list"
  round_processed :: bool
  audio_running :: bool
  last_text :: ustr
  timers :: "(real \<times> callback) list"
  window_closed :: bool

definition init_game :: game where
  "init_game =
     \<lparr> state = WAITING, score_player = 0, score_computer = 0, score_draws = 0,
       valid_rounds = 0, max_rounds = 5, reaction_times = [], round_start_time = None,
       player_gesture = None, player_call = None, computer_gesture = None,
       computer_call = None, round_records = [], round_processed = False,
       audio_running = False, last_text = [], timers = [], window_closed = False \<rparr>"

text \<open>
  A handler either returns, or raises with the attributes as they are at the raise
  (Python does not undo the assignments made before it).
\<close>

datatype error = TypeError | ValueError | IndexError | AttributeError

datatype result = Done game | Raised error game

text \<open>Sequencing: what follows a statement runs only if the statement returns.\<close>

definition and_then :: "result \<Rightarrow> (game \<Rightarrow> result) \<Rightarrow> result" where
  "and_then r f = (case r of Done s \<Rightarrow> f s | Raised e s \<Rightarrow> Raised e s)"

text \<open>
  The widgets that \<open>GameWindow\<close> assigns to an attribute of itself, in \<open>init_ui\<close>
  (\<open>model_display\<close>, \<open>camera_display\<close>) and in \<open>add_right_side_components\<close> (the rest).
  No other method assigns a widget. Reading an attribute that was never assigned raises
  AttributeError; that is the case of \<open>round_label\<close>, \<open>player_number_label\<close>,
  \<open>computer_number_label\<close>, \<open>total_label\<close>, \<open>gesture_label\<close> and \<open>voice_label\<close>.
  What a widget shows is not part of the state, so \<open>setText\<close> on a widget that exists
  changes nothing here.
\<close>

definition window_widgets :: "string list" where
  "window_widgets =
     [''model_display'', ''camera_display'', ''status_label'', ''start_button'',
      ''exit_button'', ''rule_button'', ''player_score_label'', ''computer_score_label'',
      ''draw_score_label'', ''record_label'']"

definition widget :: "string \<Rightarrow> game \<Rightarrow> result" where
  "widget name s = (if name \<in> set window_widgets then Done s else Raised AttributeError s)"

text \<open>
  \<open>update_ui\<close>: the labels are read in this order; both branches of each \<open>if\<close> read the
  same label, and \<open>record_label\<close> is read under \<open>hasattr\<close> only.
\<close>

definition update_ui :: "game \<Rightarrow> result" where
  "update_ui s =
     and_then (widget ''player_score_label'' s) (\<lambda>s.
     and_then (widget ''computer_score_label'' s) (\<lambda>s.
     and_then (widget ''round_label'' s) (\<lambda>s.
     and_then (widget ''player_number_label'' s) (\<lambda>s.
     and_then (widget ''computer_number_label'' s) (\<lambda>s.
     widget ''total_label'' s)))))"

text \<open>\<open>QTimer.singleShot(msec, cb)\<close> called at time \<open>now\<close>.\<close>

definition singleShot :: "real \<Rightarrow> int \<Rightarrow> callback \<Rightarrow> game \<Rightarrow> game" where
  "singleShot now msec cb s = s\<lparr>timers := timers s @ [(now + real_of_int msec / 1000, cb)]\<rparr>"

text \<open>
  \<open>AudioProcessor.start\<close> and \<open>AudioProcessor.stop\<close>, as far as the two attributes go:
  \<open>start\<close> sets \<open>running\<close>; \<open>stop\<close>, when running, clears it and resets \<open>last_text\<close>.
  \<open>GestureRecognizer.start\<close> does nothing.
\<close>

definition audio_start :: "game \<Rightarrow> game" where
  "audio_start s = (if audio_running s then s else s\<lparr>audio_running := True\<rparr>)"

definition audio_stop :: "game \<Rightarrow> game" where
  "audio_stop s = (if \<not> audio_running s then s else s\<lparr>audio_running := False, last_text := []\<rparr>)"

definition start_game :: "real \<Rightarrow> game \<Rightarrow> result" where
  "start_game now s =
     (let s1 = s\<lparr>state := PLAYING, score_player := 0, score_computer := 0, score_draws := 0,
                 valid_rounds := 0, reaction_times := [], round_records := []\<rparr>
      in and_then (widget ''status_label'' s1) (\<lambda>s2.
         and_then (widget ''status_label'' (audio_start s2)) (\<lambda>s3.
         Done (singleShot now 3000 cb_start_round s3))))"

text \<open>
  \<open>start_round\<close>: \<open>update_ui()\<close> is called before the timeout is armed.
\<close>

definition start_round :: "real \<Rightarrow> game \<Rightarrow> result" where
  "start_round now s =
     (let s1 = s\<lparr>round_processed := False, player_gesture := None, player_call := None,
                 computer_gesture := None, computer_call := None,
                 round_start_time := Some now\<rparr>
      in and_then (widget ''status_label'' s1) (\<lambda>s2.
         and_then (update_ui s2) (\<lambda>s3.
         Done (singleShot now 15000 cb_auto_process_round s3))))"

text \<open>
  The three-way comparison of \<open>process_round\<close> (\<open>if\<close> / \<open>elif\<close> / \<open>else\<close>).
\<close>

definition judge :: "int \<Rightarrow> int \<Rightarrow> int \<Rightarrow> outcome" where
  "judge pc cc total_value =
     (if pc = total_value \<and> pc \<noteq> cc then PlayerWin
      else if cc = total_value \<and> pc \<noteq> cc then ComputerWin
      else Draw)"

text \<open>
  \<open>process_round\<close>, called at time \<open>now\<close> (both readings of \<open>time.time()\<close> in one call
  are this one time); \<open>rg\<close> and \<open>rc\<close> are the draws for the computer's gesture and call.
  \<open>time.time() - self.round_start_time\<close> raises TypeError when no round has started;
  \<open>int((1 - elapsed) * 1000)\<close> truncates a positive number, which is its floor;
  \<open>if self.round_start_time\<close> is false for the time 0.0;
  \<open>self.round_records[-3:]\<close> keeps the last three records;
  the status label is set and \<open>update_ui(total)\<close> is called before the timer for
  \<open>end_game\<close> or \<open>start_round\<close> is armed.
\<close>

definition process_round :: "real \<Rightarrow> nat \<Rightarrow> nat \<Rightarrow> game \<Rightarrow> result" where
  "process_round now rg rc s =
     (case player_gesture s of None \<Rightarrow> Done s | Some pg \<Rightarrow>
      case player_call s of None \<Rightarrow> Done s | Some pc \<Rightarrow>
      case round_start_time s of None \<Rightarrow> Raised TypeError s | Some t0 \<Rightarrow>
        let elapsed = now - t0 in
        if elapsed < 1 then
          Done (singleShot now \<lfloor>(1 - elapsed) * 1000\<rfloor> cb_process_round s)
        else
          let cg = random_choice [''0'', ''5''] rg;
              cc = random_choice [15, 20] rc;
              s1 = s\<lparr>round_processed := True, computer_gesture := Some cg,
                     computer_call := Some cc\<rparr>
          in
          case py_int pg of None \<Rightarrow> Raised ValueError s1 | Some player_value \<Rightarrow>
          case py_int cg of None \<Rightarrow> Raised ValueError s1 | Some computer_value \<Rightarrow>
            let total_value = player_value + computer_value;
                outcome = judge pc cc total_value;
                s2 = (case outcome of
                        PlayerWin \<Rightarrow> s1\<lparr>score_player := score_player s1 + 1\<rparr>
                      | ComputerWin \<Rightarrow> s1\<lparr>score_computer := score_computer s1 + 1\<rparr>
                      | Draw \<Rightarrow> s1\<lparr>score_draws := score_draws s1 + 1\<rparr>);
                s3 = (if t0 \<noteq> 0 then s2\<lparr>reaction_times := reaction_times s2 @ [now - t0]\<rparr>
                      else s2);
                s4 = (if outcome \<noteq> Draw then s3\<lparr>valid_rounds := valid_rounds s3 + 1\<rparr>
                      else s3);
                new_record = \<lparr> rec_player_gesture = pg, rec_player_call = pc,
                           rec_computer_gesture = cg, rec_computer_call = cc,
                           rec_total = total_value, rec_outcome = outcome \<rparr>;
                records = round_records s4 @ [new_record];
                s5 = s4\<lparr>round_records := drop (length records - 3) records\<rparr>
            in
            and_then (widget ''status_label'' s5) (\<lambda>s6.
            and_then (update_ui s6) (\<lambda>s7.
              if valid_rounds s7 \<ge> max_rounds s7
              then Done (singleShot now 2000 cb_end_game s7)
              else Done (singleShot now 2000 cb_start_round s7))))"

text \<open>
  \<open>auto_process_round\<close>; \<open>fg\<close> and \<open>fc\<close> are the draws that fill a missing gesture
  and a missing call.
\<close>

definition auto_process_round :: "real \<Rightarrow> nat \<Rightarrow> nat \<Rightarrow> nat \<Rightarrow> nat \<Rightarrow> game \<Rightarrow> result" where
  "auto_process_round now fg fc rg rc s =
     (if state s \<noteq> PLAYING \<or> round_processed s then Done s
      else
        let s1 = (if player_gesture s = None
                  then s\<lparr>player_gesture := Some (random_choice [''0'', ''5''] fg)\<rparr> else s);
            s2 = (if player_call s1 = None
                  then s1\<lparr>player_call := Some (random_choice [15, 20] fc)\<rparr> else s1)
        in process_round now rg rc s2)"

definition gesture_mapping :: "(string \<times> string) list" where
  "gesture_mapping = [(''Fist'', ''0''), (''Palm'', ''5'')]"

text \<open>
  \<open>on_gesture_detected\<close>: \<open>self.gesture_label\<close> is read one statement before the gesture
  is stored. (\<open>update_3d_model\<close>, which follows the assignment, only sets the text of
  \<open>model_display\<close>.)
\<close>

definition on_gesture_detected :: "real \<Rightarrow> nat \<Rightarrow> nat \<Rightarrow> string \<Rightarrow> game \<Rightarrow> result" where
  "on_gesture_detected now rg rc gesture s =
     (if state s = PLAYING then
        (case map_of gesture_mapping gesture of
           None \<Rightarrow> Done s
         | Some new_gesture \<Rightarrow>
             and_then (widget ''gesture_label'' s) (\<lambda>s0.
               let s1 = s0\<lparr>player_gesture := Some new_gesture\<rparr>
               in if player_call s1 \<noteq> None then process_round now rg rc s1 else Done s1))
      else Done s)"

text \<open>
  \<open>exit_game\<close> closes the window, which stops the audio processor (\<open>closeEvent\<close>) and
  ends the application.
\<close>

definition exit_game :: "game \<Rightarrow> game" where
  "exit_game s = (audio_stop s)\<lparr>window_closed := True\<rparr>"

text \<open>
  \<open>on_voice_input\<close>: \<open>self.voice_label\<close> is read before the number is extracted and the
  call is stored.
\<close>

definition on_voice_input :: "real \<Rightarrow> nat \<Rightarrow> nat \<Rightarrow> ustr \<Rightarrow> game \<Rightarrow> result" where
  "on_voice_input now rg rc t s =
     (if state s = WAITING \<and> (contains kw_start t \<or> contains kw_1515 t)
      then start_game now s
      else if contains kw_exit t then Done (exit_game s)
      else
        and_then (widget ''voice_label'' s) (\<lambda>s0.
          case extract_number t of
            None \<Rightarrow> Done s0
          | Some number \<Rightarrow>
              let s1 = s0\<lparr>player_call := Some number\<rparr>
              in if player_gesture s1 \<noteq> None then process_round now rg rc s1 else Done s1))"

text \<open>
  \<open>end_game\<close> up to \<open>msg_box.exec()\<close>, and the rest of it once the player has answered
  the report (\<open>continue\<close> or exit). The dialog runs the event loop, so other handlers can
  run between the two parts, with the state \<open>FINISHED\<close>.
\<close>

definition end_game :: "game \<Rightarrow> game" where
  "end_game s = audio_stop (s\<lparr>state := FINISHED\<rparr>)"

definition end_game_answer :: "real \<Rightarrow> bool \<Rightarrow> game \<Rightarrow> result" where
  "end_game_answer now continue s = (if continue then start_game now s else Done (exit_game s))"

section \<open>The gesture recogniser\<close>

text \<open>
  What \<open>GestureRecognizer.process_frame\<close> reads of MediaPipe's recognition result: the
  landmarks of each detected hand, the handedness categories of each hand (their names),
  and the gesture categories of each hand (name and score). The image operations only
  draw, and are left out; the function's first result, the gesture string, is modelled.
\<close>

type_synonym landmark = "real \<times> real \<times> real"

record recognition_result =
  hand_landmarks :: "landmark list list"
  handedness :: "string list list"
  gestures :: "(string \<times> real) list list"

definition GESTURE_CONFIDENCE_THRESHOLD :: real where
  "GESTURE_CONFIDENCE_THRESHOLD = 0.5"

definition GESTURE_NAME_MAPPING :: "(string \<times> string) list" where
  "GESTURE_NAME_MAPPING = [(''Closed_Fist'', ''0''), (''Open_Palm'', ''5'')]"

text \<open>
  The loop over \<open>enumerate(zip(hand_landmarks, handedness))\<close>, from index \<open>idx\<close> on,
  with \<open>detected_numbers\<close> as accumulated so far. \<open>handedness[0]\<close> and
  \<open>gestures[idx][0]\<close> raise IndexError on an empty list; \<open>if gesture\<close> holds for a
  non-empty string.
\<close>

fun scan_hands ::
  "nat \<Rightarrow> (landmark list \<times> string list) list \<Rightarrow> (string \<times> real) list list \<Rightarrow> int list
     \<Rightarrow> error + int list" where
  "scan_hands idx [] gs detected_numbers = Inr detected_numbers"
| "scan_hands idx ((lms, hd_cats) # rest) gs detected_numbers =
     (if hd_cats = [] then Inl IndexError
      else if gs \<noteq> [] \<and> length gs > idx then
        (case gs ! idx of
           [] \<Rightarrow> Inl IndexError
         | (gesture_category, gesture_score) # _ \<Rightarrow>
             if gesture_score \<ge> GESTURE_CONFIDENCE_THRESHOLD then
               (case map_of GESTURE_NAME_MAPPING gesture_category of
                  None \<Rightarrow> scan_hands (idx + 1) rest gs detected_numbers
                | Some gesture \<Rightarrow>
                    if gesture \<noteq> [] then
                      (case py_int gesture of
                         None \<Rightarrow> Inl ValueError
                       | Some v \<Rightarrow> scan_hands (idx + 1) rest gs (detected_numbers @ [v]))
                    else scan_hands (idx + 1) rest gs detected_numbers)
             else scan_hands (idx + 1) rest gs detected_numbers)
      else scan_hands (idx + 1) rest gs detected_numbers)"

definition process_frame :: "recognition_result \<Rightarrow> error + string option" where
  "process_frame rr =
     (if hand_landmarks rr \<noteq> [] then
        (case scan_hands 0 (zip (hand_landmarks rr) (handedness rr)) (gestures rr) [] of
           Inl e \<Rightarrow> Inl e
         | Inr detected_numbers \<Rightarrow>
             Inr (if detected_numbers \<noteq> [] then Some (py_str (sum_list detected_numbers))
                  else None))
      else Inr None)"

section \<open>The event loop\<close>

text \<open>
  The draws that the generator makes during one handler: for a missing gesture and a
  missing call (\<open>auto_process_round\<close>), and for the computer's gesture and call
  (\<open>process_round\<close>).
\<close>

record draws =
  fill_gesture :: nat
  fill_call :: nat
  comp_gesture :: nat
  comp_call :: nat

text \<open>
  What can happen to the window: a click on the start or the exit button; the signal
  \<open>gesture_detected\<close> with some label; a camera frame with its recognition result, which
  \<open>CameraThread.run\<close> passes through \<open>process_frame\<close> and emits as \<open>gesture_detected\<close>
  when the gesture is not \<open>None\<close> (an exception is caught there and nothing is emitted);
  a transcript (stripped) that the recogniser of the audio thread produces; a pending
  timer that fires; the player's answer to the report of \<open>end_game\<close>.
\<close>

datatype event =
    start_button
  | exit_button
  | gesture_signal string
  | camera_frame recognition_result
  | voice_text ustr
  | timer_fires callback
  | report_answer bool

text \<open>
  A single-shot timer fires once, not before it is due: the first pending entry for the
  callback that is due at \<open>now\<close> is taken out.
\<close>

fun take_timer ::
  "real \<Rightarrow> callback \<Rightarrow> (real \<times> callback) list \<Rightarrow> (real \<times> callback) list option" where
  "take_timer now cb [] = None"
| "take_timer now cb ((due, c) # ts) =
     (if c = cb \<and> due \<le> now then Some ts
      else map_option ((#) (due, c)) (take_timer now cb ts))"

text \<open>
  \<open>AudioProcessor.process_audio\<close> passes a transcript to the callback only if it is not
  empty and differs from \<open>last_text\<close>, which it sets first.
\<close>

definition process_audio :: "real \<Rightarrow> nat \<Rightarrow> nat \<Rightarrow> ustr \<Rightarrow> game \<Rightarrow> result" where
  "process_audio now rg rc t s =
     (if t \<noteq> last_text s \<and> length t > 0
      then on_voice_input now rg rc t (s\<lparr>last_text := t\<rparr>)
      else Done s)"

text \<open>
  The handler that an event runs, and its result; \<open>None\<close> when the event cannot happen:
  the window is closed, the audio thread is not running, no such timer is due, no
  report is open.
\<close>

definition dispatch :: "real \<Rightarrow> draws \<Rightarrow> event \<Rightarrow> game \<Rightarrow> result option" where
  "dispatch now d e s =
     (if window_closed s then None
      else case e of
        start_button \<Rightarrow> Some (start_game now s)
      | exit_button \<Rightarrow> Some (Done (exit_game s))
      | gesture_signal g \<Rightarrow>
          Some (on_gesture_detected now (comp_gesture d) (comp_call d) g s)
      | camera_frame rr \<Rightarrow>
          (case process_frame rr of
             Inr (Some g) \<Rightarrow>
               Some (on_gesture_detected now (comp_gesture d) (comp_call d) g s)
           | _ \<Rightarrow> Some (Done s))
      | voice_text t \<Rightarrow>
          if audio_running s
          then Some (process_audio now (comp_gesture d) (comp_call d) t s)
          else None
      | timer_fires cb \<Rightarrow>
          (case take_timer now cb (timers s) of
             None \<Rightarrow> None
           | Some ts \<Rightarrow>
               let s' = s\<lparr>timers := ts\<rparr> in
               (case cb of
                  cb_start_round \<Rightarrow> Some (start_round now s')
                | cb_auto_process_round \<Rightarrow>
                    Some (auto_process_round now (fill_gesture d) (fill_call d)
                            (comp_gesture d) (comp_call d) s')
                | cb_process_round \<Rightarrow>
                    Some (process_round now (comp_gesture d) (comp_call d) s')
                | cb_end_game \<Rightarrow> Some (Done (end_game s'))))
      | report_answer continue \<Rightarrow>
          if state s = FINISHED then Some (end_game_answer now continue s) else None)"

text \<open>
  An exception that leaves a Qt slot ends the process (PyQt aborts on it); one that
  leaves the callback of the audio thread is caught and printed by
  \<open>AudioProcessor.process_audio\<close>, and the window goes on with its attributes as they are.
\<close>

fun qt_slot :: "result \<Rightarrow> game option" where
  "qt_slot (Done s) = Some s"
| "qt_slot (Raised e s) = None"

fun audio_thread :: "result \<Rightarrow> game option" where
  "audio_thread (Done s) = Some s"
| "audio_thread (Raised e s) = Some s"

fun final_state :: "result \<Rightarrow> game" where
  "final_state (Done s) = s"
| "final_state (Raised e s) = s"

fun in_audio_thread :: "event \<Rightarrow> bool" where
  "in_audio_thread (voice_text t) = True"
| "in_audio_thread e = False"

text \<open>
  One event, handled at time \<open>now\<close> with the draws \<open>d\<close>; \<open>None\<close> when the event cannot
  happen or when the process is aborted. Handlers run one at a time.
\<close>

definition step :: "real \<Rightarrow> draws \<Rightarrow> event \<Rightarrow> game \<Rightarrow> game option" where
  "step now d e s =
     (case dispatch now d e s of
        None \<Rightarrow> None
      | Some r \<Rightarrow> if in_audio_thread e then audio_thread r else qt_slot r)"

fun run :: "(real \<times> draws \<times> event) list \<Rightarrow> game \<Rightarrow> game option" where
  "run [] s = Some s"
| "run ((now, d, e) # evs) s =
     (case step now d e s of None \<Rightarrow> None | Some s' \<Rightarrow> run evs s')"


section \<open>Invariants and sample states\<close>

text \<open>
  What holds of the window in every state that the event loop reaches from \<open>init_game\<close>,
  and is kept by every handler: the target of five valid rounds, no win of the computer,
  as many valid rounds as wins on the scoreboard, a player gesture that is one of the
  two mapped values, and records whose computer call is 15 or 20 and whose total is
  0, 5 or 10.
\<close>

definition game_inv :: "game \<Rightarrow> bool" where
  "game_inv s \<longleftrightarrow>
     max_rounds s = 5 \<and> score_computer s = 0 \<and>
     valid_rounds s = score_player s + score_computer s \<and>
     (player_gesture s = None \<or> player_gesture s = Some ''0'' \<or> player_gesture s = Some ''5'') \<and>
     (\<forall>r \<in> set (round_records s).
        rec_outcome r \<noteq> ComputerWin \<and>
        (rec_computer_call r = 15 \<or> rec_computer_call r = 20) \<and>
        (rec_total r = 0 \<or> rec_total r = 5 \<or> rec_total r = 10))"

text \<open>The game is not finished and no timer for \<open>end_game\<close> is pending.\<close>

definition not_finishing :: "game \<Rightarrow> bool" where
  "not_finishing s \<longleftrightarrow> state s \<noteq> FINISHED \<and> (\<forall>tm \<in> set (timers s). snd tm \<noteq> cb_end_game)"

text \<open>
  A window in the middle of a round that was opened at time 3, with the player's gesture
  and call stored and \<open>wins\<close> rounds won by the player so far; and a window whose round,
  opened at time \<open>t0\<close>, is awaiting both inputs.
\<close>

definition sample_round :: "string \<Rightarrow> int \<Rightarrow> int \<Rightarrow> game" where
  "sample_round pg pc wins =
     init_game\<lparr>state := PLAYING, round_start_time := Some 3, player_gesture := Some pg,
       player_call := Some pc, score_player := wins, valid_rounds := wins,
       timers := [(18, cb_auto_process_round)]\<rparr>"

definition sample_awaiting :: "real \<Rightarrow> game" where
  "sample_awaiting t0 = init_game\<lparr>state := PLAYING, round_start_time := Some t0\<rparr>"

definition sample_draws :: draws where
  "sample_draws = \<lparr>fill_gesture = 0, fill_call = 0, comp_gesture = 1, comp_call = 0\<rparr>"

text \<open>
  Two runs of the event loop. \<open>trace_first_round\<close>: the start button is clicked at time 0
  and the timer of \<open>start_game\<close> fires at time 3. \<open>trace_transcript\<close>: the start button is
  clicked at time 0 and the transcript "three" arrives at time 1.
\<close>

definition trace_first_round :: "(real \<times> draws \<times> event) list" where
  "trace_first_round =
     [(0, sample_draws, start_button),
      (3, sample_draws, timer_fires cb_start_round)]"

definition trace_transcript :: "(real \<times> draws \<times> event) list" where
  "trace_transcript =
     [(0, sample_draws, start_button),
      (1, sample_draws, voice_text [ch_san])]"


section \<open>Number extraction\<close>

lemmas ch_defs = ch_ling_def ch_yi_def ch_er_def ch_san_def ch_si_def ch_wu_def ch_liu_def
  ch_qi_def ch_ba_def ch_jiu_def ch_shi_def ch_bai_def ch_qian_def ch_wan_def ch_liang_def

lemma scan_text_filter:
  "scan_text t =
     (case filter (\<lambda>v. 0 \<le> v \<and> v \<le> 5) (List.map_filter (map_of cn_num) t) of
        [] \<Rightarrow> None | v # _ \<Rightarrow> Some v)"
  by (induction t) (auto simp: List.map_filter_simps split: option.splits)

lemma scan_text_range: "scan_text t = Some v \<Longrightarrow> 0 \<le> v \<and> v \<le> 5"
  by (induction t) (auto split: option.splits if_splits)

lemma extract_number_range: "extract_number t = Some v \<Longrightarrow> 0 \<le> v \<and> v \<le> 5"
  unfolding extract_number_def by (rule scan_text_range)

text \<open>
  C4, as stated, at the two-character transcript "eight three" (U+516B U+4E09): the first
  character found in the digit table is "eight", whose value 8 lies outside 0..5, and the
  claim has \<open>extract_number\<close> return no call there. The loop of the source goes on and
  returns 3.
\<close>

theorem extract_number_first_match_counterexample:
  "map_of cn_num ch_ba = Some 8 \<and> extract_number [ch_ba, ch_san] = Some 3"
  by (simp add: extract_number_def replace_char_def cn_num_def ch_defs)

text \<open>
  C4, amended: \<open>extract_number\<close> normalises the text (zero glyph to \<open>'0'\<close>, colloquial two
  to standard two) and returns the value of the first character, left to right, whose
  digit-table value lies in 0..5; characters that are not in the table and characters
  whose value is out of range are skipped, and no call is returned when no character
  qualifies. On "three" it returns 3, on "eight" and on the empty text no call.
\<close>

theorem extract_number_first_in_range:
  "extract_number t =
     (case filter (\<lambda>v. 0 \<le> v \<and> v \<le> 5)
             (List.map_filter (map_of cn_num)
                (replace_char ch_liang ch_er (replace_char ch_ling 48 t))) of
        [] \<Rightarrow> None | v # _ \<Rightarrow> Some v)
   \<and> extract_number [ch_san] = Some 3
   \<and> extract_number [ch_ba] = None
   \<and> extract_number [] = None"
  by (simp add: extract_number_def scan_text_filter)
     (simp add: List.map_filter_simps replace_char_def cn_num_def ch_defs)

section \<open>Handlers and missing widgets\<close>

lemma and_then_Done [simp]: "and_then (Done s) f = f s"
  by (simp add: and_then_def)

lemma and_then_Raised [simp]: "and_then (Raised e s) f = Raised e s"
  by (simp add: and_then_def)

lemma widget_status_label [simp]: "widget ''status_label'' s = Done s"
  by (simp add: widget_def window_widgets_def)

lemma widget_gesture_label [simp]: "widget ''gesture_label'' s = Raised AttributeError s"
  by (simp add: widget_def window_widgets_def)

lemma widget_voice_label [simp]: "widget ''voice_label'' s = Raised AttributeError s"
  by (simp add: widget_def window_widgets_def)

lemma update_ui_raises [simp]: "update_ui s = Raised AttributeError s"
  by (simp add: update_ui_def widget_def window_widgets_def)

lemma start_round_raises:
  "start_round now s =
     Raised AttributeError
       (s\<lparr>round_processed := False, player_gesture := None, player_call := None,
          computer_gesture := None, computer_call := None, round_start_time := Some now\<rparr>)"
  by (simp add: start_round_def Let_def)

lemma start_game_returns:
  "start_game now s =
     Done (singleShot now 3000 cb_start_round
       (audio_start (s\<lparr>state := PLAYING, score_player := 0, score_computer := 0,
          score_draws := 0, valid_rounds := 0, reaction_times := [], round_records := []\<rparr>)))"
  by (simp add: start_game_def Let_def)

lemma py_int_0: "py_int ''0'' = Some 0" by (simp add: py_int_def)
lemma py_int_5: "py_int ''5'' = Some 5" by (simp add: py_int_def)

lemma random_choice_gesture:
  "random_choice [''0'', ''5''] r = ''0'' \<or> random_choice [''0'', ''5''] r = ''5''"
  unfolding random_choice_def by (cases "r mod 2 = 0") (auto simp: nth_Cons')

lemma random_choice_call:
  "random_choice [15, 20::int] r = 15 \<or> random_choice [15, 20::int] r = 20"
  unfolding random_choice_def by (cases "r mod 2 = 0") (auto simp: nth_Cons')

lemma py_int_random_gesture:
  "py_int (random_choice [''0'', ''5''] r) = Some 0 \<or> py_int (random_choice [''0'', ''5''] r) = Some 5"
  using random_choice_gesture [of r] py_int_0 py_int_5 by auto

lemma process_round_resolved:
  assumes "player_gesture s = Some pg" and "player_call s = Some pc"
    and "round_start_time s = Some t0" and "t0 + 1 \<le> now" and "py_int pg = Some pv"
    and "py_int (random_choice [''0'', ''5''] rg) = Some cv"
  shows "process_round now rg rc s =
     Raised AttributeError
          (s\<lparr>round_processed := True,
             computer_gesture := Some (random_choice [''0'', ''5''] rg),
             computer_call := Some (random_choice [15, 20] rc),
             score_player := score_player s +
               (if judge pc (random_choice [15, 20] rc) (pv + cv) = PlayerWin then 1 else 0),
             score_computer := score_computer s +
               (if judge pc (random_choice [15, 20] rc) (pv + cv) = ComputerWin then 1 else 0),
             score_draws := score_draws s +
               (if judge pc (random_choice [15, 20] rc) (pv + cv) = Draw then 1 else 0),
             reaction_times := (if t0 \<noteq> 0 then reaction_times s @ [now - t0] else reaction_times s),
             valid_rounds := valid_rounds s +
               (if judge pc (random_choice [15, 20] rc) (pv + cv) \<noteq> Draw then 1 else 0),
             round_records := drop (length (round_records s) - 2) (round_records s) @
               [\<lparr>rec_player_gesture = pg, rec_player_call = pc,
                  rec_computer_gesture = random_choice [''0'', ''5''] rg,
                  rec_computer_call = random_choice [15, 20] rc,
                  rec_total = pv + cv,
                  rec_outcome = judge pc (random_choice [15, 20] rc) (pv + cv)\<rparr>]\<rparr>)"
proof -
  have late: "\<not> now - t0 < 1" using assms(4) by simp
  show ?thesis
    using assms(1,2,3,5,6) late
    by (cases "judge pc (random_choice [15, 20] rc) (pv + cv)")
       (simp_all add: process_round_def Let_def Suc_diff_le)
qed

lemma process_round_frame:
  "player_gesture (final_state (process_round now rg rc s)) = player_gesture s
   \<and> player_call (final_state (process_round now rg rc s)) = player_call s
   \<and> state (final_state (process_round now rg rc s)) = state s
   \<and> max_rounds (final_state (process_round now rg rc s)) = max_rounds s
   \<and> round_start_time (final_state (process_round now rg rc s)) = round_start_time s
   \<and> window_closed (final_state (process_round now rg rc s)) = window_closed s
   \<and> audio_running (final_state (process_round now rg rc s)) = audio_running s
   \<and> last_text (final_state (process_round now rg rc s)) = last_text s"
  by (simp add: process_round_def Let_def singleShot_def split: option.splits outcome.splits)

lemma process_round_timers:
  "tm \<in> set (timers (final_state (process_round now rg rc s)))
     \<Longrightarrow> tm \<in> set (timers s) \<or> snd tm = cb_process_round"
  by (auto simp: process_round_def Let_def singleShot_def
        split: option.splits outcome.splits if_splits)

section \<open>Resolution of a round\<close>

text \<open>
  C2: when \<open>process_round\<close> resolves a round (both inputs present, at least one second
  after the round started) with player gesture value \<open>pv\<close>, computer gesture value
  \<open>cv\<close>, player call \<open>pc\<close> and computer call \<open>cc\<close>, the total is \<open>pv + cv\<close>, and
  the recorded result is a win of the player iff \<open>pc = total\<close> and \<open>pc \<noteq> cc\<close>, a win of the
  computer iff \<open>cc = total\<close> and \<open>pc \<noteq> cc\<close>, and a draw in every other case, in
  particular whenever \<open>pc = cc\<close>; the matching counter goes up by one. The round is
  scored and recorded in the attributes that the call leaves behind: after the scoring,
  \<open>update_ui(total)\<close> raises AttributeError.
\<close>

theorem process_round_outcome:
  assumes "player_gesture s = Some pg" and "player_call s = Some pc"
    and "round_start_time s = Some t0" and "t0 + 1 \<le> now" and "py_int pg = Some pv"
  shows "\<exists>s' r cv. process_round now rg rc s = Raised AttributeError s'
       \<and> round_records s' \<noteq> []
       \<and> r = last (round_records s')
       \<and> rec_player_gesture r = pg \<and> rec_player_call r = pc
       \<and> py_int (rec_computer_gesture r) = Some cv \<and> rec_total r = pv + cv
       \<and> (rec_outcome r = PlayerWin \<longleftrightarrow> pc = rec_total r \<and> pc \<noteq> rec_computer_call r)
       \<and> (rec_outcome r = ComputerWin \<longleftrightarrow>
            rec_computer_call r = rec_total r \<and> pc \<noteq> rec_computer_call r)
       \<and> (rec_outcome r = Draw \<longleftrightarrow>
            \<not> (pc = rec_total r \<and> pc \<noteq> rec_computer_call r) \<and>
            \<not> (rec_computer_call r = rec_total r \<and> pc \<noteq> rec_computer_call r))
       \<and> (pc = rec_computer_call r \<longrightarrow> rec_outcome r = Draw)
       \<and> score_player s' = score_player s + (if rec_outcome r = PlayerWin then 1 else 0)
       \<and> score_computer s' = score_computer s + (if rec_outcome r = ComputerWin then 1 else 0)
       \<and> score_draws s' = score_draws s + (if rec_outcome r = Draw then 1 else 0)"
proof -
  obtain cv where cv: "py_int (random_choice [''0'', ''5''] rg) = Some cv"
    using py_int_random_gesture [of rg] by auto
  show ?thesis
    unfolding process_round_resolved [OF assms cv]
    using cv by (simp add: judge_def)
qed

theorem process_round_outcome_witness:
  "player_gesture (sample_round ''5'' 5 0) = Some ''5''
   \<and> player_call (sample_round ''5'' 5 0) = Some 5
   \<and> round_start_time (sample_round ''5'' 5 0) = Some 3
   \<and> (3::real) + 1 \<le> 5 \<and> py_int ''5'' = Some 5
   \<and> (\<exists>s'. process_round 5 0 0 (sample_round ''5'' 5 0) = Raised AttributeError s'
         \<and> rec_total (last (round_records s')) = 5
         \<and> rec_computer_call (last (round_records s')) = 15
         \<and> rec_outcome (last (round_records s')) = PlayerWin
         \<and> score_player s' = 1)"
proof -
  have h1: "player_gesture (sample_round ''5'' 5 0) = Some ''5''"
    and h2: "player_call (sample_round ''5'' 5 0) = Some 5"
    and h3: "round_start_time (sample_round ''5'' 5 0) = Some 3"
    by (simp_all add: sample_round_def init_game_def)
  have h4: "(3::real) + 1 \<le> 5" by simp
  have h5: "py_int ''5'' = Some 5" by (simp add: py_int_def)
  have sc: "score_player (sample_round ''5'' 5 0) = 0"
    by (simp add: sample_round_def init_game_def)
  from process_round_outcome [OF h1 h2 h3 h4 h5, of 0 0]
  obtain s' r cv where *: "process_round 5 0 0 (sample_round ''5'' 5 0) = Raised AttributeError s'"
    "r = last (round_records s')" "py_int (rec_computer_gesture r) = Some cv"
    "rec_total r = 5 + cv"
    "rec_outcome r = PlayerWin \<longleftrightarrow> 5 = rec_total r \<and> 5 \<noteq> rec_computer_call r"
    "score_player s' = score_player (sample_round ''5'' 5 0) + (if rec_outcome r = PlayerWin then 1 else 0)"
    by blast
  have r: "rec_computer_gesture r = ''0''" "rec_computer_call r = 15"
    using *(1,2)
    by (auto simp: process_round_def sample_round_def init_game_def Let_def random_choice_def
          py_int_def judge_def)
  from *(3) r(1) have "cv = 0" by (simp add: py_int_def)
  with * r sc h1 h2 h3 h4 h5 show ?thesis by auto
qed

text \<open>
  C3: with both inputs present, a call of \<open>process_round\<close> earlier than one second after
  the round's start changes nothing but the pending timers: it arms one more timer for
  \<open>process_round\<close>, due within the last millisecond before or at \<open>round_start_time + 1\<close>
  (the attempt is deferred, not dropped). Hence whenever a call of \<open>process_round\<close> appends
  a record, sets \<open>round_processed\<close> or changes a score, it runs at a time
  \<open>now \<ge> round_start_time + 1\<close>.
\<close>

theorem process_round_stillness:
  assumes "player_gesture s = Some pg" and "player_call s = Some pc"
    and "round_start_time s = Some t0"
  shows "(now < t0 + 1 \<longrightarrow>
           (\<exists>due. process_round now rg rc s =
                    Done (s\<lparr>timers := timers s @ [(due, cb_process_round)]\<rparr>)
                 \<and> now \<le> due \<and> due \<le> t0 + 1 \<and> t0 + 1 - 1 / 1000 < due))
       \<and> (round_records (final_state (process_round now rg rc s)) \<noteq> round_records s
            \<longrightarrow> t0 + 1 \<le> now)
       \<and> (round_processed (final_state (process_round now rg rc s)) \<noteq> round_processed s
            \<longrightarrow> t0 + 1 \<le> now)
       \<and> (score_player (final_state (process_round now rg rc s)) \<noteq> score_player s
            \<or> score_computer (final_state (process_round now rg rc s)) \<noteq> score_computer s
            \<or> score_draws (final_state (process_round now rg rc s)) \<noteq> score_draws s
            \<longrightarrow> t0 + 1 \<le> now)"
proof -
  have early: "process_round now rg rc s =
      Done (s\<lparr>timers := timers s @
        [(now + real_of_int \<lfloor>(1 - (now - t0)) * 1000\<rfloor> / 1000, cb_process_round)]\<rparr>)"
    if "now < t0 + 1"
    using that assms by (simp add: process_round_def Let_def singleShot_def)
  define x where "x = (1 - (now - t0)) * 1000"
  have fl: "real_of_int \<lfloor>x\<rfloor> \<le> x" and fu: "x < real_of_int \<lfloor>x\<rfloor> + 1"
    by linarith+
  have xeq: "x / 1000 = t0 + 1 - now" by (simp add: x_def)
  have b1: "now \<le> now + real_of_int \<lfloor>x\<rfloor> / 1000" if "now < t0 + 1"
  proof -
    have "0 \<le> x" using that by (simp add: x_def)
    then have "0 \<le> \<lfloor>x\<rfloor>" by simp
    then show ?thesis by simp
  qed
  have b2: "now + real_of_int \<lfloor>x\<rfloor> / 1000 \<le> t0 + 1"
  proof -
    have "real_of_int \<lfloor>x\<rfloor> / 1000 \<le> x / 1000" using fl by (simp add: divide_right_mono)
    then show ?thesis using xeq by linarith
  qed
  have b3: "t0 + 1 - 1 / 1000 < now + real_of_int \<lfloor>x\<rfloor> / 1000"
  proof -
    have "x / 1000 < (real_of_int \<lfloor>x\<rfloor> + 1) / 1000" using fu by (simp add: divide_strict_right_mono)
    then have "x / 1000 < real_of_int \<lfloor>x\<rfloor> / 1000 + 1 / 1000" by (simp add: add_divide_distrib)
    then show ?thesis using xeq by linarith
  qed
  have unchanged: "round_records (final_state (process_round now rg rc s)) = round_records s
      \<and> round_processed (final_state (process_round now rg rc s)) = round_processed s
      \<and> score_player (final_state (process_round now rg rc s)) = score_player s
      \<and> score_computer (final_state (process_round now rg rc s)) = score_computer s
      \<and> score_draws (final_state (process_round now rg rc s)) = score_draws s"
    if "now < t0 + 1"
    using early [OF that] by simp
  show ?thesis
  proof (cases "now < t0 + 1")
    case True
    have "process_round now rg rc s =
        Done (s\<lparr>timers := timers s @ [(now + real_of_int \<lfloor>x\<rfloor> / 1000, cb_process_round)]\<rparr>)"
      using early [OF True] by (simp only: x_def)
    then have "\<exists>due. process_round now rg rc s =
                    Done (s\<lparr>timers := timers s @ [(due, cb_process_round)]\<rparr>)
                 \<and> now \<le> due \<and> due \<le> t0 + 1 \<and> t0 + 1 - 1 / 1000 < due"
      using b1 [OF True] b2 b3 by blast
    then show ?thesis using unchanged [OF True] by simp
  next
    case False
    then show ?thesis by simp
  qed
qed

theorem process_round_stillness_witness:
  "player_gesture (sample_round ''5'' 5 0) = Some ''5''
   \<and> player_call (sample_round ''5'' 5 0) = Some 5
   \<and> round_start_time (sample_round ''5'' 5 0) = Some 3
   \<and> (36 / 10 :: real) < 3 + 1
   \<and> (\<exists>due. process_round (36 / 10) 0 0 (sample_round ''5'' 5 0) =
                Done ((sample_round ''5'' 5 0)
                       \<lparr>timers := timers (sample_round ''5'' 5 0) @ [(due, cb_process_round)]\<rparr>)
             \<and> 36 / 10 \<le> due \<and> due \<le> 3 + 1 \<and> 3 + 1 - 1 / 1000 < due)"
proof -
  have h1: "player_gesture (sample_round ''5'' 5 0) = Some ''5''"
    and h2: "player_call (sample_round ''5'' 5 0) = Some 5"
    and h3: "round_start_time (sample_round ''5'' 5 0) = Some 3"
    by (simp_all add: sample_round_def init_game_def)
  have h4: "(36 / 10 :: real) < 3 + 1" by simp
  from process_round_stillness [OF h1 h2 h3, of "36 / 10" 0 0] h4
  have "\<exists>due. process_round (36 / 10) 0 0 (sample_round ''5'' 5 0) =
                Done ((sample_round ''5'' 5 0)
                       \<lparr>timers := timers (sample_round ''5'' 5 0) @ [(due, cb_process_round)]\<rparr>)
             \<and> 36 / 10 \<le> due \<and> due \<le> 3 + 1 \<and> 3 + 1 - 1 / 1000 < due"
    by blast
  with h1 h2 h3 h4 show ?thesis by blast
qed

section \<open>Reachable states\<close>


lemma game_inv_timers [simp]: "game_inv (s\<lparr>timers := ts\<rparr>) = game_inv s"
  by (simp add: game_inv_def)

lemma game_inv_last_text [simp]: "game_inv (s\<lparr>last_text := t\<rparr>) = game_inv s"
  by (simp add: game_inv_def)

lemma game_inv_singleShot [simp]: "game_inv (singleShot now ms cb s) = game_inv s"
  by (simp add: singleShot_def)

lemma game_inv_audio_start [simp]: "game_inv (audio_start s) = game_inv s"
  by (simp add: audio_start_def game_inv_def)

lemma game_inv_audio_stop [simp]: "game_inv (audio_stop s) = game_inv s"
  by (simp add: audio_stop_def game_inv_def)



lemma on_gesture_detected_cases:
  "on_gesture_detected now rg rc g s = Done s
   \<or> on_gesture_detected now rg rc g s = Raised AttributeError s"
  by (simp add: on_gesture_detected_def split: option.splits)






lemma on_voice_input_cases:
  "on_voice_input now rg rc t s = start_game now s
   \<or> on_voice_input now rg rc t s = Done (exit_game s)
   \<or> on_voice_input now rg rc t s = Raised AttributeError s"
  by (simp add: on_voice_input_def)




lemma qt_slot_final: "qt_slot r = Some s' \<Longrightarrow> s' = final_state r"
  by (cases r) auto

lemma audio_thread_final: "audio_thread r = Some s' \<Longrightarrow> s' = final_state r"
  by (cases r) auto

lemma step_dispatch:
  "step now d e s = Some s' \<Longrightarrow> \<exists>r. dispatch now d e s = Some r \<and> s' = final_state r"
  by (auto simp: step_def split: option.splits if_splits
        dest: qt_slot_final audio_thread_final)





section \<open>The end of the game\<close>

lemma take_timer_subset: "take_timer now cb ts = Some ts' \<Longrightarrow> set ts' \<subseteq> set ts"
proof (induction ts arbitrary: ts')
  case Nil
  then show ?case by simp
next
  case (Cons tm ts)
  obtain due c where tm: "tm = (due, c)" by (cases tm) auto
  show ?case
  proof (cases "c = cb \<and> due \<le> now")
    case True
    with Cons.prems tm show ?thesis by auto
  next
    case False
    with Cons.prems tm obtain z where z: "take_timer now cb ts = Some z" "ts' = (due, c) # z"
      by auto
    from Cons.IH [OF z(1)] z(2) tm show ?thesis by auto
  qed
qed

lemma take_timer_mem: "take_timer now cb ts = Some ts' \<Longrightarrow> \<exists>due. (due, cb) \<in> set ts"
proof (induction ts arbitrary: ts')
  case Nil
  then show ?case by simp
next
  case (Cons tm ts)
  obtain due c where tm: "tm = (due, c)" by (cases tm) auto
  show ?case
  proof (cases "c = cb \<and> due \<le> now")
    case True
    with tm have "(due, cb) \<in> set (tm # ts)" by simp
    then show ?thesis by blast
  next
    case False
    with Cons.prems tm obtain z where z: "take_timer now cb ts = Some z" by auto
    from Cons.IH [OF z] obtain due' where "(due', cb) \<in> set ts" by blast
    then have "(due', cb) \<in> set (tm # ts)" by simp
    then show ?thesis by blast
  qed
qed

lemma not_finishing_exit_game: "not_finishing s \<Longrightarrow> not_finishing (exit_game s)"
  by (simp add: exit_game_def audio_stop_def not_finishing_def)

lemma not_finishing_process_round:
  assumes "not_finishing s"
  shows "not_finishing (final_state (process_round now rg rc s))"
proof -
  have "state (final_state (process_round now rg rc s)) = state s"
    using process_round_frame by blast
  moreover have "\<forall>tm \<in> set (timers (final_state (process_round now rg rc s))). snd tm \<noteq> cb_end_game"
    using process_round_timers [of _ now rg rc s] assms by (fastforce simp: not_finishing_def)
  ultimately show ?thesis using assms by (simp add: not_finishing_def)
qed

lemma not_finishing_auto_process_round:
  assumes "not_finishing s"
  shows "not_finishing (final_state (auto_process_round now fg fc rg rc s))"
proof (cases "state s \<noteq> PLAYING \<or> round_processed s")
  case True
  then show ?thesis using assms by (auto simp: auto_process_round_def)
next
  case False
  have "not_finishing (let s1 = (if player_gesture s = None
                  then s\<lparr>player_gesture := Some (random_choice [''0'', ''5''] fg)\<rparr> else s)
       in if player_call s1 = None
                  then s1\<lparr>player_call := Some (random_choice [15, 20] fc)\<rparr> else s1)"
    using assms by (auto simp: not_finishing_def Let_def)
  then show ?thesis using False
    by (simp add: auto_process_round_def Let_def not_finishing_process_round)
qed

lemma not_finishing_start_game: "not_finishing (final_state (start_game now s)) = not_finishing s"
  if "not_finishing s"
  using that by (auto simp: start_game_returns singleShot_def audio_start_def not_finishing_def)

lemma not_finishing_dispatch:
  assumes "not_finishing s" and "dispatch now d e s = Some r"
  shows "not_finishing (final_state r)"
proof (cases e)
  case start_button
  then show ?thesis using assms
    by (auto simp: dispatch_def not_finishing_start_game split: if_splits)
next
  case exit_button
  then show ?thesis using assms
    by (auto simp: dispatch_def not_finishing_exit_game split: if_splits)
next
  case (gesture_signal g)
  then show ?thesis using assms on_gesture_detected_cases [of now "comp_gesture d" "comp_call d" g s]
    by (auto simp: dispatch_def split: if_splits)
next
  case (camera_frame rr)
  show ?thesis
  proof (cases "process_frame rr")
    case (Inl err)
    with camera_frame assms show ?thesis by (auto simp: dispatch_def split: if_splits)
  next
    case (Inr og)
    show ?thesis
    proof (cases og)
      case None
      with camera_frame Inr assms show ?thesis by (auto simp: dispatch_def split: if_splits)
    next
      case (Some g)
      with camera_frame Inr assms
        on_gesture_detected_cases [of now "comp_gesture d" "comp_call d" g s]
      show ?thesis by (auto simp: dispatch_def split: if_splits)
    qed
  qed
next
  case (voice_text t)
  have nf: "not_finishing (s\<lparr>last_text := t\<rparr>)" using assms(1) by (simp add: not_finishing_def)
  let ?r = "on_voice_input now (comp_gesture d) (comp_call d) t (s\<lparr>last_text := t\<rparr>)"
  have v: "not_finishing (final_state ?r)"
  proof -
    consider "?r = start_game now (s\<lparr>last_text := t\<rparr>)"
      | "?r = Done (exit_game (s\<lparr>last_text := t\<rparr>))"
      | "?r = Raised AttributeError (s\<lparr>last_text := t\<rparr>)"
      using on_voice_input_cases by blast
    then show ?thesis
    proof cases
      case 1
      then show ?thesis using not_finishing_start_game [OF nf, of now] nf by simp
    next
      case 2
      then show ?thesis using not_finishing_exit_game [OF nf] by simp
    next
      case 3
      then show ?thesis using nf by simp
    qed
  qed
  from assms(2) voice_text have "r = process_audio now (comp_gesture d) (comp_call d) t s"
    by (auto simp: dispatch_def split: if_splits)
  then show ?thesis using v assms(1) by (auto simp: process_audio_def)
next
  case (timer_fires cb)
  then obtain ts where ts: "take_timer now cb (timers s) = Some ts" and nc: "\<not> window_closed s"
    using assms(2) by (auto simp: dispatch_def split: if_splits option.splits)
  have nf': "not_finishing (s\<lparr>timers := ts\<rparr>)"
    using assms(1) take_timer_subset [OF ts] by (auto simp: not_finishing_def)
  have ne: "cb \<noteq> cb_end_game"
    using take_timer_mem [OF ts] assms(1) by (force simp: not_finishing_def)
  show ?thesis
  proof (cases cb)
    case cb_start_round
    then show ?thesis using assms(2) timer_fires ts nc nf'
      by (auto simp: dispatch_def Let_def start_round_raises not_finishing_def)
  next
    case cb_auto_process_round
    then show ?thesis using assms(2) timer_fires ts nc not_finishing_auto_process_round [OF nf']
      by (auto simp: dispatch_def Let_def)
  next
    case cb_process_round
    then show ?thesis using assms(2) timer_fires ts nc not_finishing_process_round [OF nf']
      by (auto simp: dispatch_def Let_def)
  next
    case cb_end_game
    with ne show ?thesis by simp
  qed
next
  case (report_answer b)
  then show ?thesis using assms
    by (auto simp: dispatch_def not_finishing_def split: if_splits)
qed

lemma not_finishing_init: "not_finishing init_game"
  by (simp add: not_finishing_def init_game_def)

lemma not_finishing_run:
  "not_finishing s \<Longrightarrow> run evs s = Some s' \<Longrightarrow> not_finishing s'"
proof (induction evs arbitrary: s)
  case Nil
  then show ?case by simp
next
  case (Cons ev evs)
  obtain now d e where ev: "ev = (now, d, e)" by (cases ev) auto
  from Cons.prems(2) obtain s1 where s1: "step now d e s = Some s1" and r: "run evs s1 = Some s'"
    by (auto simp: ev split: option.splits)
  from step_dispatch [OF s1] not_finishing_dispatch [OF Cons.prems(1)]
  have "not_finishing s1" by blast
  with Cons.IH r show ?case by blast
qed

text \<open>
  C8, on the code: a resolution adds one to \<open>valid_rounds\<close> iff its result is not a draw,
  but it never arms the timer for \<open>end_game\<close>: \<open>update_ui(total)\<close> raises AttributeError
  before the test of \<open>valid_rounds\<close> against \<open>max_rounds\<close>, so the pending timers and the
  state are as before the call, also when the fifth round without a draw has just been
  scored. \<open>end_game\<close>, which sets the state \<open>FINISHED\<close>, is armed nowhere else: in every
  state that the event loop reaches from \<open>init_game\<close> the game is not finished and no
  timer for \<open>end_game\<close> is pending.
\<close>

theorem finish_never_armed:
  assumes "player_gesture s = Some pg" and "player_call s = Some pc"
    and "round_start_time s = Some t0" and "t0 + 1 \<le> now" and "py_int pg = Some pv"
  shows "(\<exists>s' r. process_round now rg rc s = Raised AttributeError s'
            \<and> round_records s' \<noteq> [] \<and> r = last (round_records s')
            \<and> valid_rounds s' = valid_rounds s + (if rec_outcome r = Draw then 0 else 1)
            \<and> timers s' = timers s \<and> state s' = state s)
       \<and> (run evs init_game = Some s0 \<longrightarrow>
            state s0 \<noteq> FINISHED \<and> (\<forall>tm \<in> set (timers s0). snd tm \<noteq> cb_end_game))
       \<and> state (end_game s) = FINISHED"
proof -
  obtain cv where cv: "py_int (random_choice [''0'', ''5''] rg) = Some cv"
    using py_int_random_gesture [of rg] by auto
  have res: "\<exists>s' r. process_round now rg rc s = Raised AttributeError s'
            \<and> round_records s' \<noteq> [] \<and> r = last (round_records s')
            \<and> valid_rounds s' = valid_rounds s + (if rec_outcome r = Draw then 0 else 1)
            \<and> timers s' = timers s \<and> state s' = state s"
    unfolding process_round_resolved [OF assms cv] by simp
  have "run evs init_game = Some s0 \<longrightarrow>
            state s0 \<noteq> FINISHED \<and> (\<forall>tm \<in> set (timers s0). snd tm \<noteq> cb_end_game)"
    using not_finishing_run [OF not_finishing_init, of evs s0] by (simp add: not_finishing_def)
  moreover have "state (end_game s) = FINISHED"
    by (simp add: end_game_def audio_stop_def)
  ultimately show ?thesis using res by blast
qed

lemmas handler_defs = step_def dispatch_def process_audio_def start_game_def start_round_def
  singleShot_def audio_start_def audio_stop_def
  process_round_def auto_process_round_def on_gesture_detected_def on_voice_input_def
  exit_game_def end_game_def end_game_answer_def judge_def random_choice_def py_int_def
  gesture_mapping_def extract_number_def replace_char_def cn_num_def ch_defs
  kw_start_def kw_1515_def kw_exit_def init_game_def sample_draws_def Let_def

lemma run_start_button:
  "run [(0, sample_draws, start_button)] init_game =
     Some (init_game\<lparr>state := PLAYING, audio_running := True, timers := [(3, cb_start_round)]\<rparr>)"
  by (simp add: handler_defs)

theorem finish_never_armed_witness:
  "player_gesture (sample_round ''5'' 5 4) = Some ''5''
   \<and> player_call (sample_round ''5'' 5 4) = Some 5
   \<and> round_start_time (sample_round ''5'' 5 4) = Some 3
   \<and> (3::real) + 1 \<le> 5 \<and> py_int ''5'' = Some 5
   \<and> valid_rounds (sample_round ''5'' 5 4) = 4
   \<and> score_player (sample_round ''5'' 5 4) = 4
   \<and> score_computer (sample_round ''5'' 5 4) = 0
   \<and> (\<exists>s'. process_round 5 0 0 (sample_round ''5'' 5 4) = Raised AttributeError s'
         \<and> rec_outcome (last (round_records s')) = PlayerWin
         \<and> valid_rounds s' = 5 \<and> max_rounds s' = 5
         \<and> timers s' = [(18, cb_auto_process_round)]
         \<and> state s' = PLAYING)
   \<and> run [(0, sample_draws, start_button)] init_game =
        Some (init_game\<lparr>state := PLAYING, audio_running := True,
                timers := [(3, cb_start_round)]\<rparr>)
   \<and> state (init_game\<lparr>state := PLAYING, audio_running := True,
                timers := [(3, cb_start_round)]\<rparr>) = PLAYING"
proof -
  have h1: "player_gesture (sample_round ''5'' 5 4) = Some ''5''"
    and h2: "player_call (sample_round ''5'' 5 4) = Some 5"
    and h3: "round_start_time (sample_round ''5'' 5 4) = Some 3"
    and vr: "valid_rounds (sample_round ''5'' 5 4) = 4"
    and tm: "timers (sample_round ''5'' 5 4) = [(18, cb_auto_process_round)]"
    and st: "state (sample_round ''5'' 5 4) = PLAYING"
    and gi: "score_player (sample_round ''5'' 5 4) = 4"
      "score_computer (sample_round ''5'' 5 4) = 0"
    by (simp_all add: sample_round_def init_game_def)
  have h4: "(3::real) + 1 \<le> 5" by simp
  have h5: "py_int ''5'' = Some 5" by (simp add: py_int_def)
  from finish_never_armed
         [OF h1 h2 h3 h4 h5, where rg = 0 and rc = 0
            and evs = "[(0, sample_draws, start_button)]"
            and ?s0.0 = "init_game\<lparr>state := PLAYING, audio_running := True,
                timers := [(3, cb_start_round)]\<rparr>"]
  obtain s' r where *: "process_round 5 0 0 (sample_round ''5'' 5 4) = Raised AttributeError s'"
    "r = last (round_records s')"
    "valid_rounds s' = valid_rounds (sample_round ''5'' 5 4) + (if rec_outcome r = Draw then 0 else 1)"
    "timers s' = timers (sample_round ''5'' 5 4)" "state s' = state (sample_round ''5'' 5 4)"
    by blast
  have r: "rec_outcome r = PlayerWin" "max_rounds s' = 5"
    using *(1,2)
    by (auto simp: process_round_def sample_round_def init_game_def Let_def random_choice_def
          py_int_def judge_def)
  have st0: "state (init_game\<lparr>state := PLAYING, audio_running := True,
                timers := [(3, cb_start_round)]\<rparr>) = PLAYING" by simp
  from * r vr tm st have "valid_rounds s' = 5" "timers s' = [(18, cb_auto_process_round)]"
    "state s' = PLAYING" by auto
  with *(1,2) r h1 h2 h3 h4 h5 gi vr run_start_button st0 show ?thesis by auto
qed


section \<open>Timeout, inputs and the number of resolutions\<close>

text \<open>
  C5, on the code: when the timeout fires in a round that is awaiting input and has no
  call, the call is filled with 15 or 20, and no transcript makes \<open>extract_number\<close>
  deliver that value: a live call is always in 0..5 (the transcript "15" gives 1, the
  words "ten five" give 5). The filled gesture, in contrast, is a value of the mapping of
  the live gestures.
\<close>

theorem autofill_call_outside_live_domain:
  assumes "state s = PLAYING" and "\<not> round_processed s" and "player_call s = None"
  shows "(player_call (final_state (auto_process_round now fg fc rg rc s)) = Some 15
          \<or> player_call (final_state (auto_process_round now fg fc rg rc s)) = Some 20)
       \<and> extract_number t \<noteq> player_call (final_state (auto_process_round now fg fc rg rc s))
       \<and> (player_gesture s = None \<longrightarrow>
            (\<exists>g. map_of gesture_mapping g =
                   player_gesture (final_state (auto_process_round now fg fc rg rc s))))"
proof -
  define s1 where "s1 = (if player_gesture s = None
                  then s\<lparr>player_gesture := Some (random_choice [''0'', ''5''] fg)\<rparr> else s)"
  define s2 where "s2 = s1\<lparr>player_call := Some (random_choice [15, 20] fc)\<rparr>"
  have c1: "player_call s1 = None" using assms(3) by (simp add: s1_def)
  have eq: "auto_process_round now fg fc rg rc s = process_round now rg rc s2"
    using assms(1,2) c1 by (simp add: auto_process_round_def Let_def s1_def s2_def)
  have pc: "player_call (final_state (auto_process_round now fg fc rg rc s))
              = Some (random_choice [15, 20] fc)"
    unfolding eq using process_round_frame [of now rg rc s2] by (simp add: s2_def)
  have pg: "player_gesture (final_state (auto_process_round now fg fc rg rc s))
              = Some (random_choice [''0'', ''5''] fg)" if "player_gesture s = None"
    unfolding eq using process_round_frame [of now rg rc s2] that by (simp add: s2_def s1_def)
  have live: "extract_number t \<noteq> Some 15" "extract_number t \<noteq> Some 20"
    using extract_number_range [of t] by auto
  have m: "\<exists>g. map_of gesture_mapping g = Some (random_choice [''0'', ''5''] fg)"
  proof -
    have "map_of gesture_mapping ''Fist'' = Some ''0''" "map_of gesture_mapping ''Palm'' = Some ''5''"
      by (simp_all add: gesture_mapping_def)
    then show ?thesis using random_choice_gesture [of fg] by metis
  qed
  show ?thesis using pc pg live m random_choice_call [of fc] by auto
qed

theorem autofill_call_outside_live_domain_witness:
  "state (init_game\<lparr>state := PLAYING, round_start_time := Some 3,
            timers := [(18, cb_auto_process_round)]\<rparr>) = PLAYING
   \<and> \<not> round_processed (init_game\<lparr>state := PLAYING, round_start_time := Some 3,
            timers := [(18, cb_auto_process_round)]\<rparr>)
   \<and> player_call (init_game\<lparr>state := PLAYING, round_start_time := Some 3,
            timers := [(18, cb_auto_process_round)]\<rparr>) = None
   \<and> player_call (final_state (auto_process_round 18 0 0 1 0
        (init_game\<lparr>state := PLAYING, round_start_time := Some 3,
            timers := [(18, cb_auto_process_round)]\<rparr>))) = Some 15
   \<and> extract_number [49, 53] = Some 1
   \<and> extract_number [ch_shi, ch_wu] = Some 5
   \<and> extract_number [49, 53] \<noteq> player_call (final_state (auto_process_round 18 0 0 1 0
        (init_game\<lparr>state := PLAYING, round_start_time := Some 3,
            timers := [(18, cb_auto_process_round)]\<rparr>)))"
proof -
  let ?s = "init_game\<lparr>state := PLAYING, round_start_time := Some 3,
            timers := [(18, cb_auto_process_round)]\<rparr>"
  have h1: "state ?s = PLAYING" and h2: "\<not> round_processed ?s" and h3: "player_call ?s = None"
    by (simp_all add: init_game_def)
  have e: "player_call (final_state (auto_process_round 18 0 0 1 0 ?s)) = Some 15"
    by (simp add: handler_defs)
  have x: "extract_number [49, 53] = Some 1" "extract_number [ch_shi, ch_wu] = Some 5"
    by (simp_all add: handler_defs)
  from autofill_call_outside_live_domain
         [OF h1 h2 h3, where t = "[49, 53]" and now = 18 and fg = 0 and fc = 0 and rg = 1 and rc = 0]
  have "extract_number [49, 53] \<noteq> player_call (final_state (auto_process_round 18 0 0 1 0 ?s))"
    by blast
  with h1 h2 h3 e x show ?thesis by blast
qed

text \<open>
  C6, on the code: no event stores a value. \<open>on_gesture_detected\<close> leaves
  \<open>player_gesture\<close> as it is and \<open>on_voice_input\<close> leaves \<open>player_call\<close> as it is, in
  every state: an accepted gesture ("Fist", value "0") and a transcript with a number
  ("three") raise AttributeError on \<open>gesture_label\<close> and \<open>voice_label\<close>, one statement
  before the assignment, so the first accepted value of a round is not kept. In the run
  \<open>trace_transcript\<close> the call "three" reaches the window and \<open>player_call\<close> stays \<open>None\<close>.
\<close>

theorem accepted_input_not_stored:
  "player_gesture (final_state (on_gesture_detected now rg rc g s)) = player_gesture s
   \<and> player_call (final_state (on_voice_input now rg rc t s)) = player_call s
   \<and> map_of gesture_mapping ''Fist'' = Some ''0''
   \<and> player_gesture (sample_awaiting 3) = None
   \<and> on_gesture_detected 4 0 0 ''Fist'' (sample_awaiting 3)
        = Raised AttributeError (sample_awaiting 3)
   \<and> extract_number [ch_san] = Some 3
   \<and> player_call (sample_awaiting 3) = None
   \<and> on_voice_input 4 0 0 [ch_san] (sample_awaiting 3)
        = Raised AttributeError (sample_awaiting 3)
   \<and> run trace_transcript init_game =
        Some (init_game\<lparr>state := PLAYING, audio_running := True, last_text := [ch_san],
                timers := [(3, cb_start_round)]\<rparr>)
   \<and> player_call (init_game\<lparr>state := PLAYING, audio_running := True, last_text := [ch_san],
                timers := [(3, cb_start_round)]\<rparr>) = None"
proof -
  have g: "player_gesture (final_state (on_gesture_detected now rg rc g s)) = player_gesture s"
    using on_gesture_detected_cases [of now rg rc g s] by auto
  have v: "player_call (final_state (on_voice_input now rg rc t s)) = player_call s"
    using on_voice_input_cases [of now rg rc t s]
    by (auto simp: start_game_returns singleShot_def audio_start_def exit_game_def audio_stop_def)
  have c: "map_of gesture_mapping ''Fist'' = Some ''0''"
      "player_gesture (sample_awaiting 3) = None"
      "on_gesture_detected 4 0 0 ''Fist'' (sample_awaiting 3)
        = Raised AttributeError (sample_awaiting 3)"
      "extract_number [ch_san] = Some 3"
      "player_call (sample_awaiting 3) = None"
      "on_voice_input 4 0 0 [ch_san] (sample_awaiting 3)
        = Raised AttributeError (sample_awaiting 3)"
    by (simp_all add: sample_awaiting_def handler_defs)
  have r: "run trace_transcript init_game =
        Some (init_game\<lparr>state := PLAYING, audio_running := True, last_text := [ch_san],
                timers := [(3, cb_start_round)]\<rparr>)"
      "player_call (init_game\<lparr>state := PLAYING, audio_running := True, last_text := [ch_san],
                timers := [(3, cb_start_round)]\<rparr>) = None"
    by (simp_all add: trace_transcript_def handler_defs)
  from g v c r show ?thesis by blast
qed

text \<open>
  C7, on the code: \<open>auto_process_round\<close> has no round among its arguments and a timer
  carries none. Called on a window whose round is awaiting both inputs, at any time from
  one second after that round opened (so also by a timeout that was armed for an earlier
  round, well before the round's own 15 seconds are over), it is not ignored: it fills
  the gesture and the call of that round and scores it. For instance at time 18 in a
  round that was opened at time 13.
\<close>

theorem stale_timeout_resolves_open_round:
  assumes "state s = PLAYING" and "\<not> round_processed s"
    and "player_gesture s = None" and "player_call s = None"
    and "round_start_time s = Some t0" and "t0 + 1 \<le> now"
  shows "\<exists>s'. auto_process_round now fg fc rg rc s = Raised AttributeError s'
          \<and> round_start_time s' = Some t0
          \<and> player_gesture s' = Some (random_choice [''0'', ''5''] fg)
          \<and> player_call s' = Some (random_choice [15, 20] fc)
          \<and> round_processed s'
          \<and> round_records s' \<noteq> []
          \<and> rec_player_gesture (last (round_records s')) = random_choice [''0'', ''5''] fg
          \<and> rec_player_call (last (round_records s')) = random_choice [15, 20] fc
          \<and> score_player s' + score_computer s' + score_draws s'
               = score_player s + score_computer s + score_draws s + 1"
proof -
  define s2 where "s2 = s\<lparr>player_gesture := Some (random_choice [''0'', ''5''] fg),
                          player_call := Some (random_choice [15, 20] fc)\<rparr>"
  have eq: "auto_process_round now fg fc rg rc s = process_round now rg rc s2"
    using assms(1-4) by (simp add: auto_process_round_def Let_def s2_def)
  obtain pv where pv: "py_int (random_choice [''0'', ''5''] fg) = Some pv"
    using py_int_random_gesture [of fg] by auto
  obtain cv where cv: "py_int (random_choice [''0'', ''5''] rg) = Some cv"
    using py_int_random_gesture [of rg] by auto
  have g: "player_gesture s2 = Some (random_choice [''0'', ''5''] fg)"
    and c: "player_call s2 = Some (random_choice [15, 20] fc)"
    and t: "round_start_time s2 = Some t0"
    using assms(5) by (simp_all add: s2_def)
  show ?thesis
    unfolding eq process_round_resolved [OF g c t assms(6) pv cv]
    using outcome.exhaust [of "judge (random_choice [15, 20] fc) (random_choice [15, 20] rc) (pv + cv)"]
    by (auto simp: s2_def assms(5))
qed

theorem stale_timeout_resolves_open_round_witness:
  "state (sample_awaiting 13) = PLAYING
   \<and> round_processed (sample_awaiting 13) = False
   \<and> player_gesture (sample_awaiting 13) = None
   \<and> player_call (sample_awaiting 13) = None
   \<and> round_start_time (sample_awaiting 13) = Some 13
   \<and> (13::real) + 1 \<le> 18
   \<and> auto_process_round 18 0 0 1 0 (sample_awaiting 13) =
       Raised AttributeError
         ((sample_awaiting 13)
            \<lparr>player_gesture := Some ''0'', player_call := Some 15,
             round_processed := True, computer_gesture := Some ''5'',
             computer_call := Some 15, score_draws := 1, reaction_times := [5],
             round_records :=
               [\<lparr>rec_player_gesture = ''0'', rec_player_call = 15,
                  rec_computer_gesture = ''5'', rec_computer_call = 15,
                  rec_total = 5, rec_outcome = Draw\<rparr>]\<rparr>)
   \<and> (\<exists>s'. auto_process_round 18 0 0 1 0 (sample_awaiting 13) = Raised AttributeError s'
          \<and> round_start_time s' = Some 13 \<and> round_processed s'
          \<and> round_records s' \<noteq> []
          \<and> score_player s' + score_computer s' + score_draws s' = 1)"
proof -
  have h: "state (sample_awaiting 13) = PLAYING" "\<not> round_processed (sample_awaiting 13)"
    "player_gesture (sample_awaiting 13) = None" "player_call (sample_awaiting 13) = None"
    "round_start_time (sample_awaiting 13) = Some 13"
    and sc: "score_player (sample_awaiting 13) + score_computer (sample_awaiting 13)
               + score_draws (sample_awaiting 13) = 0"
    by (simp_all add: sample_awaiting_def init_game_def)
  have t: "(13::real) + 1 \<le> 18" by simp
  have e: "auto_process_round 18 0 0 1 0 (sample_awaiting 13) =
       Raised AttributeError
         ((sample_awaiting 13)
            \<lparr>player_gesture := Some ''0'', player_call := Some 15,
             round_processed := True, computer_gesture := Some ''5'',
             computer_call := Some 15, score_draws := 1, reaction_times := [5],
             round_records :=
               [\<lparr>rec_player_gesture = ''0'', rec_player_call = 15,
                  rec_computer_gesture = ''5'', rec_computer_call = 15,
                  rec_total = 5, rec_outcome = Draw\<rparr>]\<rparr>)"
    by (simp add: sample_awaiting_def handler_defs)
  from stale_timeout_resolves_open_round
         [OF h(1) h(2) h(3) h(4) h(5) t, where fg = 0 and fc = 0 and rg = 1 and rc = 0] sc
  have "\<exists>s'. auto_process_round 18 0 0 1 0 (sample_awaiting 13) = Raised AttributeError s'
          \<and> round_start_time s' = Some 13 \<and> round_processed s'
          \<and> round_records s' \<noteq> []
          \<and> score_player s' + score_computer s' + score_draws s' = 1"
    by auto
  with h t e show ?thesis by simp
qed

text \<open>
  C1, on the code: a round that \<open>start_round\<close> opens gets no outcome, and a round that
  is resolved can be resolved again. \<open>start_round\<close> raises AttributeError in \<open>update_ui()\<close>
  before it arms the timeout, so no timer is pending afterwards, and the run
  \<open>trace_first_round\<close> (start button, then the timer of \<open>start_game\<close>) ends the process.
  \<open>process_round\<close> sets \<open>round_processed\<close> and never tests it: called a second time on
  the attributes that its first call left, it scores the same round again (two wins of
  the player, two records).
\<close>

theorem resolution_not_exactly_once:
  "start_round 3 (init_game\<lparr>state := PLAYING, audio_running := True\<rparr>) =
     Raised AttributeError
       (init_game\<lparr>state := PLAYING, audio_running := True, round_start_time := Some 3\<rparr>)
   \<and> timers (init_game\<lparr>state := PLAYING, audio_running := True,
                round_start_time := Some 3\<rparr>) = []
   \<and> run trace_first_round init_game = None
   \<and> round_processed (final_state (process_round 5 0 0 (sample_round ''5'' 5 0))) = True
   \<and> score_player (final_state (process_round 5 0 0 (sample_round ''5'' 5 0))) = 1
   \<and> score_player (final_state (process_round 6 0 0
        (final_state (process_round 5 0 0 (sample_round ''5'' 5 0))))) = 2
   \<and> length (round_records (final_state (process_round 6 0 0
        (final_state (process_round 5 0 0 (sample_round ''5'' 5 0)))))) = 2"
proof -
  have a: "start_round 3 (init_game\<lparr>state := PLAYING, audio_running := True\<rparr>) =
     Raised AttributeError
       (init_game\<lparr>state := PLAYING, audio_running := True, round_start_time := Some 3\<rparr>)"
    "timers (init_game\<lparr>state := PLAYING, audio_running := True,
                round_start_time := Some 3\<rparr>) = []"
    by (simp_all add: start_round_raises init_game_def)
  have b: "run trace_first_round init_game = None"
    by (simp add: trace_first_round_def handler_defs)
  have c: "process_round 5 0 0 (sample_round ''5'' 5 0) =
      Raised AttributeError
        ((sample_round ''5'' 5 0)
           \<lparr>round_processed := True, computer_gesture := Some ''0'', computer_call := Some 15,
            score_player := 1, valid_rounds := 1, reaction_times := [2],
            round_records :=
              [\<lparr>rec_player_gesture = ''5'', rec_player_call = 5,
                 rec_computer_gesture = ''0'', rec_computer_call = 15,
                 rec_total = 5, rec_outcome = PlayerWin\<rparr>]\<rparr>)"
    by (simp add: sample_round_def handler_defs)
  have d: "score_player (final_state (process_round 6 0 0
        (final_state (process_round 5 0 0 (sample_round ''5'' 5 0))))) = 2"
    "length (round_records (final_state (process_round 6 0 0
        (final_state (process_round 5 0 0 (sample_round ''5'' 5 0)))))) = 2"
    unfolding c by (simp_all add: sample_round_def handler_defs)
  from a b c d show ?thesis by simp
qed

section \<open>The gestures of the camera\<close>







lemma audio_stop_player_gesture [simp]: "player_gesture (audio_stop s) = player_gesture s"
  by (simp add: audio_stop_def)







end
